theory Spec2Isabelle
  imports Complex_Main "HOL-Library.Word"
begin

section \<open>JSON serialization utilities for PostgreSQL data types\<close>

text \<open>
  A shallow embedding of \<^verbatim>\<open>src/postgres_mcp/json_utils.py\<close>: the handler
  \<^verbatim>\<open>_default\<close>, and the two entry points \<^verbatim>\<open>to_jsonable\<close> and
  \<^verbatim>\<open>to_json\<close> built on the encoder \<^verbatim>\<open>orjson\<close>.

  The three functions are translated from the source. What they call is not part of the
  repository and is modelled from its documented behaviour:
  \<^item> the standard library (\<^verbatim>\<open>decimal.Decimal\<close>, \<^verbatim>\<open>str\<close> of a
    \<^verbatim>\<open>timedelta\<close>, \<^verbatim>\<open>bytes.hex\<close>), under the default decimal context;
  \<^item> \<^verbatim>\<open>orjson\<close>, from the docstring of \<^verbatim>\<open>_default\<close> (the types it
    serializes natively) and from the encoder's documentation (what it rejects).
  Floating point is not modelled bit by bit: a float is its 64-bit pattern, and the two
  operations that compute with it (the conversion of a decimal to the nearest double, the
  decimal text of a double) are parameters of the model.
\<close>

subsection \<open>Python values\<close>

type_synonym byte = "8 word"

text \<open>A double, as its IEEE 754 binary64 bit pattern.\<close>

type_synonym float64 = "64 word"

text \<open>
  \<^verbatim>\<open>decimal.Decimal\<close>: a finite number is a sign (\<open>True\<close> is negative), a
  coefficient and an exponent, of value \<open>\<plusminus> coefficient * 10 ^ exponent\<close>; the special
  values are the infinities and the quiet and signalling NaNs.
\<close>

datatype decimal =
    Finite bool nat int
  | Infinity bool
  | NaN bool
  | SNaN bool

text \<open>
  \<^verbatim>\<open>datetime.timedelta\<close>, in its normalized representation:
  \<open>0 \<le> seconds < 86400\<close> and \<open>0 \<le> microseconds < 1000000\<close>; only the days carry a sign.
\<close>

record timedelta =
  days :: int
  seconds :: nat
  microseconds :: nat

record date =
  year :: nat
  month :: nat
  day :: nat

text \<open>
  A time of day; \<open>utcoffset\<close> is \<open>None\<close> for a naive value and the offset from UTC
  in minutes for an aware one.
\<close>

record time =
  hour :: nat
  minute :: nat
  second :: nat
  microsecond :: nat
  utcoffset :: "int option"

text \<open>
  The values the codec can be handed. Strings are the UTF-8 bytes of the text (a
  \<^verbatim>\<open>str\<close> that holds a lone surrogate has none, and is not modelled). A set is
  held with its elements in the order its iteration yields them; a dict is its items in
  insertion order (a Python dict has no two equal keys; no theorem below depends on that).
  \<open>PObject q n\<close> stands for an object of any type that is neither serialized natively by
  the encoder nor handled by \<^verbatim>\<open>_default\<close>; \<open>n\<close> is the \<^verbatim>\<open>__name__\<close> of its
  type, and \<open>q\<close> the name the interpreter prints the type under (the same name, behind
  the name of its module for a type of an extension module).
\<close>

datatype pyval =
    PNone
  | PBool bool
  | PInt int
  | PFloat float64
  | PStr string
  | PList "pyval list"
  | PDict "(pyval \<times> pyval) list"
  | PDatetime date time
  | PDate date
  | PTime time
  | PUUID "128 word"
  | PDecimal decimal
  | PTimedelta timedelta
  | PMemoryview "byte list"
  | PBytes "byte list"
  | PSet "pyval list"
  | PFrozenset "pyval list"
  | PObject string string

text \<open>
  The exceptions of the model. \<open>JSONEncodeError\<close> is the encoder's own exception (a
  subclass of \<^verbatim>\<open>TypeError\<close>); its second component is the exception it was raised
  from, when \<^verbatim>\<open>default\<close> raised one.
\<close>

datatype error =
    TypeError string
  | ValueError string
  | OverflowError string
  | InvalidOperation
  | JSONEncodeError string "error option"

subsection \<open>Decimal numerals and hexadecimal digits\<close>

definition digit_char :: "nat \<Rightarrow> char" where
  "digit_char n = ''0123456789abcdef'' ! n"

text \<open>\<^verbatim>\<open>"%d" % n\<close> for \<open>n \<ge> 0\<close>.\<close>

fun str_nat :: "nat \<Rightarrow> string" where
  "str_nat n = (if n < 10 then [digit_char n] else str_nat (n div 10) @ [digit_char (n mod 10)])"

declare str_nat.simps [simp del]

text \<open>\<^verbatim>\<open>"%d" % i\<close>.\<close>

definition str_int :: "int \<Rightarrow> string" where
  "str_int i = (if i < 0 then CHR ''-'' # str_nat (nat (- i)) else str_nat (nat i))"

text \<open>\<^verbatim>\<open>"%0wd" % n\<close>: at least \<open>w\<close> digits, padded with zeros on the left.\<close>

definition zero_pad :: "nat \<Rightarrow> nat \<Rightarrow> string" where
  "zero_pad w n = replicate (w - length (str_nat n)) CHR ''0'' @ str_nat n"

text \<open>\<^verbatim>\<open>bytes.hex()\<close>: two lowercase hexadecimal digits for each byte.\<close>

definition byte_hex :: "byte \<Rightarrow> string" where
  "byte_hex b = [digit_char (unat b div 16), digit_char (unat b mod 16)]"

definition bytes_hex :: "byte list \<Rightarrow> string" where
  "bytes_hex bs = concat (map byte_hex bs)"

subsection \<open>The operations of \<^verbatim>\<open>decimal.Decimal\<close> that the handler uses\<close>

text \<open>Rounding of \<open>c / q\<close> to an integer, ties to even (the default context's mode).\<close>

definition round_half_even :: "nat \<Rightarrow> nat \<Rightarrow> nat" where
  "round_half_even c q =
     (let k = c div q; r = c mod q
      in if 2 * r < q then k
         else if q < 2 * r then k + 1
         else if even k then k else k + 1)"

text \<open>
  \<^verbatim>\<open>Decimal.to_integral_value()\<close>: a number with a non-negative exponent is returned
  as it is, any other is rescaled to exponent 0; an infinity or a quiet NaN is returned as
  it is, and a signalling NaN raises.
\<close>

fun to_integral_value :: "decimal \<Rightarrow> error + decimal" where
  "to_integral_value (Finite s c e) =
     (if 0 \<le> e then Inr (Finite s c e)
      else Inr (Finite s (round_half_even c (10 ^ nat (- e))) 0))"
| "to_integral_value (Infinity s) = Inr (Infinity s)"
| "to_integral_value (NaN s) = Inr (NaN s)"
| "to_integral_value (SNaN s) = Inl InvalidOperation"

text \<open>The signed coefficient of a finite decimal, scaled to the exponent \<open>m\<close>.\<close>

definition scaled :: "bool \<Rightarrow> nat \<Rightarrow> int \<Rightarrow> int \<Rightarrow> int" where
  "scaled s c e m = (if s then - int c else int c) * 10 ^ nat (e - m)"

text \<open>
  \<^verbatim>\<open>Decimal.__eq__\<close>: numerical equality (so \<open>-0\<close> equals \<open>0\<close>, and \<open>1E+2\<close>
  equals \<open>100\<close>); a comparison with a quiet NaN is false. (The handler never compares
  a signalling NaN: \<^verbatim>\<open>to_integral_value\<close> has raised before.)
\<close>

fun decimal_eq :: "decimal \<Rightarrow> decimal \<Rightarrow> bool" where
  "decimal_eq (Finite s c e) (Finite s' c' e') =
     (scaled s c e (min e e') = scaled s' c' e' (min e e'))"
| "decimal_eq (Infinity s) (Infinity s') = (s = s')"
| "decimal_eq _ _ = False"

text \<open>\<^verbatim>\<open>int(d)\<close>: truncation towards zero; an infinity or a NaN raises.\<close>

fun decimal_int :: "decimal \<Rightarrow> error + int" where
  "decimal_int (Finite s c e) =
     (let m = (if 0 \<le> e then int c * 10 ^ nat e else int c div 10 ^ nat (- e))
      in Inr (if s then - m else m))"
| "decimal_int (Infinity s) = Inl (OverflowError ''cannot convert Infinity to integer'')"
| "decimal_int (NaN s) = Inl (ValueError ''cannot convert NaN to integer'')"
| "decimal_int (SNaN s) = Inl (ValueError ''cannot convert NaN to integer'')"

text \<open>
  The number a finite decimal stands for, and the truncation of a number to an integer
  (towards zero).
\<close>

definition finite_value :: "bool \<Rightarrow> nat \<Rightarrow> int \<Rightarrow> rat" where
  "finite_value s c e =
     (if s then - 1 else 1)
     * (if 0 \<le> e then of_nat c * 10 ^ nat e else of_nat c / 10 ^ nat (- e))"

definition truncation :: "rat \<Rightarrow> int" where
  "truncation x = (if x < 0 then \<lceil>x\<rceil> else \<lfloor>x\<rfloor>)"

text \<open>
  \<^verbatim>\<open>float(d)\<close>. The conversion of a finite decimal to the nearest double is the
  parameter \<open>nearest\<close> (sign, coefficient, exponent); the special values are converted
  as Python does.
\<close>

type_synonym nearest_double = "bool \<Rightarrow> nat \<Rightarrow> int \<Rightarrow> float64"

definition float_inf :: "bool \<Rightarrow> float64" where
  "float_inf s = (if s then 0xFFF0000000000000 else 0x7FF0000000000000)"

definition float_nan :: "bool \<Rightarrow> float64" where
  "float_nan s = (if s then 0xFFF8000000000000 else 0x7FF8000000000000)"

fun decimal_float :: "nearest_double \<Rightarrow> decimal \<Rightarrow> error + float64" where
  "decimal_float nearest (Finite s c e) = Inr (nearest s c e)"
| "decimal_float nearest (Infinity s) = Inr (float_inf s)"
| "decimal_float nearest (NaN s) = Inr (float_nan s)"
| "decimal_float nearest (SNaN s) = Inl (ValueError ''cannot convert signaling NaN to float'')"

text \<open>A double is finite unless all eleven bits of its exponent are set.\<close>

definition isfinite :: "float64 \<Rightarrow> bool" where
  "isfinite f = (take_bit 11 (drop_bit 52 f) \<noteq> 0x7FF)"

subsection \<open>\<^verbatim>\<open>str\<close> of a \<^verbatim>\<open>timedelta\<close>\<close>

text \<open>
  \<^verbatim>\<open>
  mm, ss = divmod(self._seconds, 60)
  hh, mm = divmod(mm, 60)
  s = "%d:%02d:%02d" % (hh, mm, ss)
  if self._days:
      def plural(n): return n, abs(n) != 1 and "s" or ""
      s = ("%d day%s, " % plural(self._days)) + s
  if self._microseconds:
      s = s + ".%06d" % self._microseconds
  return s
  \<close>
\<close>

definition plural :: "int \<Rightarrow> string" where
  "plural n = (if \<bar>n\<bar> \<noteq> 1 then ''s'' else [])"

definition timedelta_str :: "timedelta \<Rightarrow> string" where
  "timedelta_str td =
     (let mm = seconds td div 60; ss = seconds td mod 60;
          hh = mm div 60; mm = mm mod 60;
          s = str_nat hh @ '':'' @ zero_pad 2 mm @ '':'' @ zero_pad 2 ss;
          s = (if days td \<noteq> 0
               then str_int (days td) @ '' day'' @ plural (days td) @ '', '' @ s
               else s)
      in if microseconds td \<noteq> 0 then s @ ''.'' @ zero_pad 6 (microseconds td) else s)"

text \<open>
  \<^verbatim>\<open>timedelta(days=d, hours=h, minutes=m, seconds=s)\<close> for integer arguments: the
  constructor normalizes to days and seconds.
\<close>

definition timedelta_new :: "int \<Rightarrow> int \<Rightarrow> int \<Rightarrow> int \<Rightarrow> timedelta" where
  "timedelta_new d h m s =
     (let total = ((d * 24 + h) * 60 + m) * 60 + s
      in \<lparr>days = total div 86400, seconds = nat (total mod 86400), microseconds = 0\<rparr>)"

subsection \<open>The handler \<^verbatim>\<open>_default\<close>\<close>

text \<open>\<^verbatim>\<open>type(obj).__name__\<close>.\<close>

fun type_name :: "pyval \<Rightarrow> string" where
  "type_name PNone = ''NoneType''"
| "type_name (PBool _) = ''bool''"
| "type_name (PInt _) = ''int''"
| "type_name (PFloat _) = ''float''"
| "type_name (PStr _) = ''str''"
| "type_name (PList _) = ''list''"
| "type_name (PDict _) = ''dict''"
| "type_name (PDatetime _ _) = ''datetime''"
| "type_name (PDate _) = ''date''"
| "type_name (PTime _) = ''time''"
| "type_name (PUUID _) = ''UUID''"
| "type_name (PDecimal _) = ''Decimal''"
| "type_name (PTimedelta _) = ''timedelta''"
| "type_name (PMemoryview _) = ''memoryview''"
| "type_name (PBytes _) = ''bytes''"
| "type_name (PSet _) = ''set''"
| "type_name (PFrozenset _) = ''frozenset''"
| "type_name (PObject q n) = n"

text \<open>
  \<^verbatim>\<open>
  if isinstance(obj, decimal.Decimal):
      return int(obj) if obj == obj.to_integral_value() else float(obj)
  if isinstance(obj, datetime.timedelta):
      return str(obj)
  if isinstance(obj, memoryview):
      return obj.tobytes().hex()
  if isinstance(obj, bytes):
      return obj.hex()
  if isinstance(obj, (set, frozenset)):
      return list(obj)
  raise TypeError(f"Object of type {type(obj).__name__} is not JSON serializable")
  \<close>
  A memoryview is held as the bytes that \<^verbatim>\<open>tobytes()\<close> returns.
\<close>

fun py_default :: "nearest_double \<Rightarrow> pyval \<Rightarrow> error + pyval" where
  "py_default nearest (PDecimal d) =
     (case to_integral_value d of
        Inl e \<Rightarrow> Inl e
      | Inr r \<Rightarrow>
          if decimal_eq d r then map_sum id PInt (decimal_int d)
          else map_sum id PFloat (decimal_float nearest d))"
| "py_default nearest (PTimedelta td) = Inr (PStr (timedelta_str td))"
| "py_default nearest (PMemoryview bs) = Inr (PStr (bytes_hex bs))"
| "py_default nearest (PBytes bs) = Inr (PStr (bytes_hex bs))"
| "py_default nearest (PSet xs) = Inr (PList xs)"
| "py_default nearest (PFrozenset xs) = Inr (PList xs)"
| "py_default nearest obj =
     Inl (TypeError (''Object of type '' @ type_name obj @ '' is not JSON serializable''))"

subsection \<open>The encoder\<close>

text \<open>
  A JSON document. \<^verbatim>\<open>orjson.dumps\<close> writes one as bytes and
  \<^verbatim>\<open>orjson.loads\<close> reads one back; the model keeps the document as a tree between
  the two, and writes its text only where the text is the result (\<^verbatim>\<open>to_json\<close>).
  That the parser reads back the document the encoder wrote is a property of the library
  that the model takes for granted.
\<close>

datatype json =
    JNull
  | JBool bool
  | JInt int
  | JFloat float64
  | JStr string
  | JArray "json list"
  | JObject "(string \<times> json) list"

text \<open>The results of a traversal that stops at the first exception.\<close>

fun collect :: "('e + 'a) list \<Rightarrow> 'e + 'a list" where
  "collect [] = Inr []"
| "collect (r # rs) =
     (case r of
        Inl e \<Rightarrow> Inl e
      | Inr x \<Rightarrow> (case collect rs of Inl e \<Rightarrow> Inl e | Inr xs \<Rightarrow> Inr (x # xs)))"

text \<open>
  The encoder's native text of temporal values (RFC 3339) and of UUIDs. The offset of an
  aware datetime is written in hours and minutes.
\<close>

definition date_iso :: "date \<Rightarrow> string" where
  "date_iso d = zero_pad 4 (year d) @ ''-'' @ zero_pad 2 (month d) @ ''-'' @ zero_pad 2 (day d)"

definition clock_iso :: "time \<Rightarrow> string" where
  "clock_iso t =
     zero_pad 2 (hour t) @ '':'' @ zero_pad 2 (minute t) @ '':'' @ zero_pad 2 (second t)
     @ (if microsecond t \<noteq> 0 then ''.'' @ zero_pad 6 (microsecond t) else [])"

definition offset_iso :: "int option \<Rightarrow> string" where
  "offset_iso off =
     (case off of
        None \<Rightarrow> []
      | Some m \<Rightarrow>
          (if m < 0 then ''-'' else ''+'')
          @ zero_pad 2 (nat \<bar>m\<bar> div 60) @ '':'' @ zero_pad 2 (nat \<bar>m\<bar> mod 60))"

definition datetime_iso :: "date \<Rightarrow> time \<Rightarrow> string" where
  "datetime_iso d t = date_iso d @ ''T'' @ clock_iso t @ offset_iso (utcoffset t)"

text \<open>The 32 hexadecimal digits of a UUID, most significant first, in groups 8-4-4-4-12.\<close>

definition uuid_hex :: "128 word \<Rightarrow> string" where
  "uuid_hex u = map (\<lambda>i. digit_char (unat u div 16 ^ i mod 16)) (rev [0..<32])"

definition uuid_str :: "128 word \<Rightarrow> string" where
  "uuid_str u =
     (let h = uuid_hex u
      in take 8 h @ ''-'' @ take 4 (drop 8 h) @ ''-'' @ take 4 (drop 12 h) @ ''-''
         @ take 4 (drop 16 h) @ ''-'' @ drop 20 h)"

text \<open>The name of a type as the encoder's error message prints it.\<close>

fun tp_name :: "pyval \<Rightarrow> string" where
  "tp_name (PDecimal _) = ''decimal.Decimal''"
| "tp_name (PTimedelta _) = ''datetime.timedelta''"
| "tp_name (PDatetime _ _) = ''datetime.datetime''"
| "tp_name (PDate _) = ''datetime.date''"
| "tp_name (PTime _) = ''datetime.time''"
| "tp_name (PObject q n) = q"
| "tp_name obj = type_name obj"

text \<open>The types the encoder serializes without calling \<^verbatim>\<open>default\<close>.\<close>

fun native :: "pyval \<Rightarrow> bool" where
  "native (PDecimal _) = False"
| "native (PTimedelta _) = False"
| "native (PMemoryview _) = False"
| "native (PBytes _) = False"
| "native (PSet _) = False"
| "native (PFrozenset _) = False"
| "native (PObject _ _) = False"
| "native _ = True"

text \<open>The integers the encoder writes: those of a signed or an unsigned 64-bit word.\<close>

definition int64_range :: "int \<Rightarrow> bool" where
  "int64_range i = (- (2 ^ 63) \<le> i \<and> i < 2 ^ 64)"

text \<open>
  \<^verbatim>\<open>orjson.dumps(obj, default=_default)\<close>, up to the document it writes.
  Natively: \<^verbatim>\<open>None\<close>, booleans, integers of at most 64 bits, floats (NaN and the
  infinities are written as \<^verbatim>\<open>null\<close>), strings, lists, dicts whose keys are
  strings, datetimes, dates, naive times and UUIDs. An object of any other type is passed
  to the handler, and what the handler returns is serialized in its place; when the
  handler raises, the encoder raises \<open>JSONEncodeError\<close> from that exception.
  The encoder's guard against runaway recursion (a fixed bound on the depth of nesting) is
  a resource limit, like the interpreter's own, and is not modelled.
\<close>

function (sequential) dumps :: "nearest_double \<Rightarrow> pyval \<Rightarrow> error + json" where
  "dumps nearest PNone = Inr JNull"
| "dumps nearest (PBool b) = Inr (JBool b)"
| "dumps nearest (PInt i) =
     (if int64_range i then Inr (JInt i)
      else Inl (JSONEncodeError ''Integer exceeds 64-bit range'' None))"
| "dumps nearest (PFloat f) = Inr (if isfinite f then JFloat f else JNull)"
| "dumps nearest (PStr s) = Inr (JStr s)"
| "dumps nearest (PList xs) = map_sum id JArray (collect (map (dumps nearest) xs))"
| "dumps nearest (PDict kvs) =
     map_sum id JObject
       (collect (map (\<lambda>(k, v).
          case k of
            PStr s \<Rightarrow> map_sum id (Pair s) (dumps nearest v)
          | _ \<Rightarrow> Inl (JSONEncodeError ''Dict key must be str'' None)) kvs))"
| "dumps nearest (PDatetime d t) = Inr (JStr (datetime_iso d t))"
| "dumps nearest (PDate d) = Inr (JStr (date_iso d))"
| "dumps nearest (PTime t) =
     (if utcoffset t = None then Inr (JStr (clock_iso t))
      else Inl (JSONEncodeError ''datetime.time must not have tzinfo set'' None))"
| "dumps nearest (PUUID u) = Inr (JStr (uuid_str u))"
| "dumps nearest obj =
     (case py_default nearest obj of
        Inl e \<Rightarrow> Inl (JSONEncodeError (''Type is not JSON serializable: '' @ tp_name obj) (Some e))
      | Inr obj' \<Rightarrow> dumps nearest obj')"
  by pat_completeness auto

lemma size_default:
  "py_default nearest obj = Inr obj' \<Longrightarrow> \<not> native obj \<Longrightarrow> size obj' \<le> size obj \<and> native obj'"
  by (cases obj) (auto split: sum.splits if_splits simp: map_sum_def)

lemma size_elem: "x \<in> set xs \<Longrightarrow> size x < Suc (size_list size xs)"
  by (induction xs) auto

lemma size_item: "(k, v) \<in> set kvs \<Longrightarrow> size v < Suc (size_list (size_prod size size) kvs)"
  by (induction kvs) auto

termination dumps
proof (relation "measure (\<lambda>(n, x). 2 * size x + (if native x then 0 else 1))", goal_cases)
  case 1
  then show ?case by simp
next
  case (2 nearest xs x)
  then show ?case using size_elem [of x xs] by auto
next
  case (3 nearest kvs kv k v s)
  then show ?case using size_item [of k v kvs] by auto
qed (use size_default in \<open>fastforce+\<close>)

text \<open>
  \<^verbatim>\<open>orjson.loads\<close> of a document the encoder wrote: the Python value of the
  document. JSON numbers written as integers are read as \<^verbatim>\<open>int\<close>, the others as
  \<^verbatim>\<open>float\<close>; the names of an object are \<^verbatim>\<open>str\<close> keys, in the order
  written.
\<close>

fun loads :: "json \<Rightarrow> pyval" where
  "loads JNull = PNone"
| "loads (JBool b) = PBool b"
| "loads (JInt i) = PInt i"
| "loads (JFloat f) = PFloat f"
| "loads (JStr s) = PStr s"
| "loads (JArray js) = PList (map loads js)"
| "loads (JObject ms) = PDict (map (\<lambda>(k, j). (PStr k, loads j)) ms)"

subsection \<open>The text of a document, indented\<close>

text \<open>
  A string between double quotes: the quote and the backslash are escaped, the control
  characters are written \<^verbatim>\<open>\b \t \n \f \r\<close> or \<^verbatim>\<open>\u00XX\<close>, and every
  other byte of the UTF-8 text is written as it is.
\<close>

definition escape_char :: "char \<Rightarrow> string" where
  "escape_char c =
     (if c = CHR 0x22 then [CHR 0x5C, CHR 0x22]
      else if c = CHR 0x5C then [CHR 0x5C, CHR 0x5C]
      else if c = CHR 0x08 then [CHR 0x5C, CHR ''b'']
      else if c = CHR 0x09 then [CHR 0x5C, CHR ''t'']
      else if c = CHR 0x0A then [CHR 0x5C, CHR ''n'']
      else if c = CHR 0x0C then [CHR 0x5C, CHR ''f'']
      else if c = CHR 0x0D then [CHR 0x5C, CHR ''r'']
      else if (of_char c :: nat) < 32
        then [CHR 0x5C, CHR ''u'', CHR ''0'', CHR ''0'',
              digit_char (of_char c div 16), digit_char (of_char c mod 16)]
      else [c])"

definition quote :: "string \<Rightarrow> string" where
  "quote s = CHR 0x22 # concat (map escape_char s) @ [CHR 0x22]"

text \<open>A line break followed by the indentation of depth \<open>d\<close>: two spaces a level.\<close>

definition newline_indent :: "nat \<Rightarrow> string" where
  "newline_indent d = CHR 0x0A # replicate (2 * d) CHR '' ''"

text \<open>The items of a container, each on a line of its own, separated by commas.\<close>

fun commas :: "string list \<Rightarrow> string" where
  "commas [] = []"
| "commas [s] = s"
| "commas (s # t # ts) = s @ '','' @ commas (t # ts)"

text \<open>
  The text the encoder writes under \<^verbatim>\<open>OPT_INDENT_2\<close>, at depth \<open>d\<close>. The decimal
  text of a double is the parameter \<open>repr\<close>.
\<close>

fun pretty :: "(float64 \<Rightarrow> string) \<Rightarrow> nat \<Rightarrow> json \<Rightarrow> string" where
  "pretty repr d JNull = ''null''"
| "pretty repr d (JBool b) = (if b then ''true'' else ''false'')"
| "pretty repr d (JInt i) = str_int i"
| "pretty repr d (JFloat f) = repr f"
| "pretty repr d (JStr s) = quote s"
| "pretty repr d (JArray js) =
     (if js = [] then ''[]''
      else ''['' @ commas (map (\<lambda>j. newline_indent (d + 1) @ pretty repr (d + 1) j) js)
           @ newline_indent d @ '']'')"
| "pretty repr d (JObject ms) =
     (if ms = [] then ''{}''
      else ''{'' @ commas (map (\<lambda>(k, j). newline_indent (d + 1) @ quote k @ '': ''
                                         @ pretty repr (d + 1) j) ms)
           @ newline_indent d @ ''}'')"

subsection \<open>The entry points\<close>

text \<open>
  \<^verbatim>\<open>return orjson.loads(orjson.dumps(obj, default=_default))\<close>
\<close>

definition to_jsonable :: "nearest_double \<Rightarrow> pyval \<Rightarrow> error + pyval" where
  "to_jsonable nearest obj = map_sum id loads (dumps nearest obj)"

text \<open>
  \<^verbatim>\<open>return orjson.dumps(obj, default=_default, option=orjson.OPT_INDENT_2).decode()\<close>

  The result is held as the bytes of its UTF-8 text, so \<^verbatim>\<open>decode\<close> changes nothing.
\<close>

definition to_json :: "nearest_double \<Rightarrow> (float64 \<Rightarrow> string) \<Rightarrow> pyval \<Rightarrow> error + string" where
  "to_json nearest repr obj = map_sum id (pretty repr 0) (dumps nearest obj)"

section \<open>The explain tool on a database without the extension\<close>

text \<open>
  The operation \<^verbatim>\<open>explain_query\<close> of \<^verbatim>\<open>postgres_mcp/server.py\<close> and the
  explain tool it drives are not among the source files: only their tests are. They are
  modelled here from sections 4.4 and 4.5 of the specification.

  An operation returns its result together with the calls it made on the database, in
  order. The database is what an operation can observe of it: the answer of the extension
  check (installed, detail message) and the text of the plan of a statement under a list
  of virtual indexes, or the error of the database.
\<close>

type_synonym index_spec = "string \<times> string list"

datatype db_call =
    CheckExtension
  | CreateIndex index_spec
  | Explain string
  | RemoveIndexes

datatype explain_error =
    MissingExtension string
  | QueryError string

record database =
  hypopg_status :: "bool \<times> string"
  plan_text :: "index_spec list \<Rightarrow> string \<Rightarrow> explain_error + string"

text \<open>
  Modelled from the spec: the hypothetical-index session manager (section 4.4), whose code
  is missing. It checks that the extension is installed; if it is not, the whole operation
  fails fast with \<open>MissingExtension\<close> of the detail message and the body is never
  invoked; if it is, one virtual index is created per spec, the body is invoked, and the
  virtual indexes are removed on every exit.
\<close>

definition with_hypothetical_indexes ::
  "database \<Rightarrow> index_spec list \<Rightarrow> (index_spec list \<Rightarrow> (explain_error + 'a) \<times> db_call list)
   \<Rightarrow> (explain_error + 'a) \<times> db_call list" where
  "with_hypothetical_indexes db specs body =
     (case hypopg_status db of
        (installed, detail) \<Rightarrow>
          if \<not> installed then (Inl (MissingExtension detail), [CheckExtension])
          else (case body specs of
                  (r, calls) \<Rightarrow>
                    (r, [CheckExtension] @ map CreateIndex specs @ calls @ [RemoveIndexes])))"

text \<open>
  Modelled from the spec: \<^verbatim>\<open>explainWithHypotheticalIndexes\<close> of the explain tool
  (section 4.5), whose code is missing. It delegates to the session manager and, within
  the scope, runs a plain EXPLAIN.
\<close>

definition explain_with_hypothetical_indexes ::
  "database \<Rightarrow> string \<Rightarrow> index_spec list \<Rightarrow> (explain_error + string) \<times> db_call list" where
  "explain_with_hypothetical_indexes db sql specs =
     with_hypothetical_indexes db specs (\<lambda>ixs. (plan_text db ixs sql, [Explain sql]))"

text \<open>
  Modelled from the spec: \<^verbatim>\<open>explain\<close> of the explain tool (section 4.5), whose code
  is missing. It runs EXPLAIN, with no hypothetical indexes.
\<close>

definition explain :: "database \<Rightarrow> string \<Rightarrow> (explain_error + string) \<times> db_call list" where
  "explain db sql = (plan_text db [] sql, [Explain sql])"

text \<open>
  Modelled from the spec: \<^verbatim>\<open>explain_query\<close> of \<^verbatim>\<open>server.py\<close> without the
  analyze variant (sections 4.5 and 6), whose code is missing. With index specs it is
  \<^verbatim>\<open>explainWithHypotheticalIndexes\<close>, and when the extension is missing the caller
  receives the detail message as the response text rather than an error; any other failure
  propagates as an error.
\<close>

definition explain_query ::
  "database \<Rightarrow> string \<Rightarrow> index_spec list \<Rightarrow> (explain_error + string) \<times> db_call list" where
  "explain_query db sql specs =
     (if specs = [] then explain db sql
      else case explain_with_hypothetical_indexes db sql specs of
             (Inl (MissingExtension detail), calls) \<Rightarrow> (Inr detail, calls)
           | (r, calls) \<Rightarrow> (r, calls))"

section \<open>The vocabulary of the claims\<close>

text \<open>
  The notions in which the theorems state the specification's claims about the codec.
\<close>

text \<open>
  The fractional part of a number: what its truncation to an integer leaves.
\<close>

definition fractional_part :: "rat \<Rightarrow> rat" where
  "fractional_part x = x - of_int (truncation x)"

text \<open>
  The inputs of a supported kind: the JSON-native kinds, the temporal values and UUIDs the
  encoder serializes natively, and the kinds of the rule table (decimals, intervals,
  binary blobs, sets), nested in lists, in dicts under string keys and in sets. The
  values that the encoder refuses are left out: an integer beyond 64 bits (also as the
  value of a whole decimal), an infinite or signalling decimal, a time of day that carries
  a UTC offset, a dict key that is not a string.
\<close>

fun supported_decimal :: "decimal \<Rightarrow> bool" where
  "supported_decimal (Finite s c e) =
     (fractional_part (finite_value s c e) \<noteq> 0 \<or> int64_range (truncation (finite_value s c e)))"
| "supported_decimal (NaN s) = True"
| "supported_decimal (Infinity s) = False"
| "supported_decimal (SNaN s) = False"

fun supported :: "pyval \<Rightarrow> bool" where
  "supported (PInt i) = int64_range i"
| "supported (PList xs) = list_all supported xs"
| "supported (PDict kvs) = list_all (\<lambda>(k, v). (case k of PStr s \<Rightarrow> True | _ \<Rightarrow> False) \<and> supported v) kvs"
| "supported (PTime t) = (utcoffset t = None)"
| "supported (PDecimal d) = supported_decimal d"
| "supported (PSet xs) = list_all supported xs"
| "supported (PFrozenset xs) = list_all supported xs"
| "supported (PObject q n) = False"
| "supported _ = True"


text \<open>
  An object of an unsupported type stands somewhere in a value: as the value itself, as an
  element of a list or of a set, or as a value of a dict.
\<close>

fun contains_object :: "pyval \<Rightarrow> bool" where
  "contains_object (PObject q n) = True"
| "contains_object (PList xs) = list_ex contains_object xs"
| "contains_object (PDict kvs) = list_ex (\<lambda>(k, v). contains_object v) kvs"
| "contains_object (PSet xs) = list_ex contains_object xs"
| "contains_object (PFrozenset xs) = list_ex contains_object xs"
| "contains_object _ = False"

text \<open>
  The JSON-native kinds (the kinds of a normalized value): null, a boolean, a number, a
  string, a sequence of such values, and a mapping from strings to such values. A number
  is an integer the encoder writes, or a finite float.
\<close>

fun json_native :: "pyval \<Rightarrow> bool" where
  "json_native PNone = True"
| "json_native (PBool b) = True"
| "json_native (PInt i) = int64_range i"
| "json_native (PFloat f) = isfinite f"
| "json_native (PStr s) = True"
| "json_native (PList xs) = list_all json_native xs"
| "json_native (PDict kvs) = list_all (\<lambda>(k, v). (case k of PStr s \<Rightarrow> True | _ \<Rightarrow> False) \<and> json_native v) kvs"
| "json_native _ = False"





text \<open>
  Two inputs are the same value when they differ at most in the order in which their sets
  enumerate their elements; an input is free of unordered collections when no set stands
  in it.
\<close>

fun same_value :: "pyval \<Rightarrow> pyval \<Rightarrow> bool" where
  "same_value (PList xs) y =
     (case y of PList ys \<Rightarrow> list_all2 same_value xs ys | _ \<Rightarrow> False)"
| "same_value (PDict kvs) y =
     (case y of
        PDict kvs' \<Rightarrow>
          list_all2 (\<lambda>kv kv'. same_value (fst kv) (fst kv') \<and> same_value (snd kv) (snd kv'))
            kvs kvs'
      | _ \<Rightarrow> False)"
| "same_value (PSet xs) y =
     (case y of
        PSet ys \<Rightarrow>
          list_all (\<lambda>x. list_ex (same_value x) ys) xs
          \<and> list_all (\<lambda>y. list_ex (\<lambda>x. same_value x y) xs) ys
      | _ \<Rightarrow> False)"
| "same_value (PFrozenset xs) y =
     (case y of
        PFrozenset ys \<Rightarrow>
          list_all (\<lambda>x. list_ex (same_value x) ys) xs
          \<and> list_all (\<lambda>y. list_ex (\<lambda>x. same_value x y) xs) ys
      | _ \<Rightarrow> False)"
| "same_value x y = (x = y)"


text \<open>
  The documents the encoder can write: their integers fit 64 bits and their floats are
  finite.
\<close>

fun written :: "json \<Rightarrow> bool" where
  "written (JInt i) = int64_range i"
| "written (JFloat f) = isfinite f"
| "written (JArray js) = list_all written js"
| "written (JObject ms) = list_all (\<lambda>(k, j). written j) ms"
| "written _ = True"

section \<open>Properties\<close>

subsection \<open>Decimals\<close>

lemma div_Ints_iff:
  assumes "0 < q"
  shows "(of_nat c / of_nat q :: rat) \<in> \<int> \<longleftrightarrow> q dvd c"
proof
  assume "(of_nat c / of_nat q :: rat) \<in> \<int>"
  then obtain k :: int where k: "(of_nat c / of_nat q :: rat) = of_int k" by (auto elim: Ints_cases)
  with assms have "(of_int (int c) :: rat) = of_int (k * int q)" by (simp add: field_simps)
  then have "int c = k * int q" by (simp only: of_int_eq_iff)
  then have "int q dvd int c" by simp
  then show "q dvd c" by (simp only: int_dvd_int_iff)
next
  assume "q dvd c"
  then obtain k where "c = q * k" ..
  with assms show "(of_nat c / of_nat q :: rat) \<in> \<int>" by simp
qed

lemma round_exact:
  assumes "0 < q"
  shows "round_half_even c q * q = c \<longleftrightarrow> q dvd c"
proof
  assume "round_half_even c q * q = c"
  then show "q dvd c" by (metis dvd_triv_right)
next
  assume "q dvd c"
  then have "c mod q = 0" by simp
  with assms have "round_half_even c q = c div q" by (simp add: round_half_even_def Let_def)
  with \<open>q dvd c\<close> show "round_half_even c q * q = c" by simp
qed

lemma value_Ints_iff:
  "finite_value s c e \<in> \<int> \<longleftrightarrow> (0 \<le> e \<or> 10 ^ nat (- e) dvd c)"
proof (cases "0 \<le> e")
  case True
  have "(of_nat c * 10 ^ nat e :: rat) = of_nat (c * 10 ^ nat e)" by simp
  then have "(of_nat c * 10 ^ nat e :: rat) \<in> \<int>" by (simp only: Ints_of_nat)
  with True show ?thesis by (simp add: finite_value_def)
next
  case False
  have "(of_nat c / of_nat (10 ^ nat (- e)) :: rat) \<in> \<int> \<longleftrightarrow> 10 ^ nat (- e) dvd c"
    by (rule div_Ints_iff) simp
  with False show ?thesis by (simp add: finite_value_def)
qed

lemma Ints_truncation: "x \<in> \<int> \<longleftrightarrow> x = of_int (truncation x)"
proof
  assume "x \<in> \<int>"
  then obtain k where "x = of_int k" by (auto elim: Ints_cases)
  then show "x = of_int (truncation x)" by (simp add: truncation_def)
next
  assume "x = of_int (truncation x)"
  then show "x \<in> \<int>" by (metis Ints_of_int)
qed

lemma floor_nat_div: "0 < q \<Longrightarrow> \<lfloor>of_nat c / of_nat q :: rat\<rfloor> = int (c div q)"
  by (simp add: floor_divide_of_nat_eq)

lemma ceiling_neg_nat_div: "0 < q \<Longrightarrow> \<lceil>- (of_nat c / of_nat q) :: rat\<rceil> = - int (c div q)"
  by (simp add: ceiling_minus floor_divide_of_nat_eq)

lemma decimal_int_truncation:
  "decimal_int (Finite s c e) = Inr (truncation (finite_value s c e))"
proof (cases "0 \<le> e")
  case True
  have *: "(of_nat c * 10 ^ nat e :: rat) = of_int (int c * 10 ^ nat e)" by simp
  have "truncation (of_int k) = k" for k by (simp add: truncation_def)
  then have "truncation (of_nat c * 10 ^ nat e) = int c * 10 ^ nat e"
    and "truncation (- (of_nat c * 10 ^ nat e)) = - (int c * 10 ^ nat e)"
    by (metis *, metis * of_int_minus)
  with True show ?thesis by (simp add: finite_value_def)
next
  case False
  let ?q = "10 ^ nat (- e) :: nat"
  have q: "0 < ?q" by simp
  have "0 \<le> (of_nat c / of_nat ?q :: rat)" by simp
  then have pos: "truncation (of_nat c / of_nat ?q) = int (c div ?q)"
    using floor_nat_div [OF q, of c] by (simp add: truncation_def not_less [symmetric])
  have neg: "truncation (- (of_nat c / of_nat ?q)) = - int (c div ?q)"
  proof (cases "c div ?q = 0")
    case True
    then have "c < ?q" by (simp add: div_eq_0_iff)
    show ?thesis
    proof (cases "c = 0")
      case True
      then show ?thesis by (simp add: truncation_def)
    next
      case False
      then have "- (of_nat c / of_nat ?q :: rat) < 0" by simp
      then show ?thesis using ceiling_neg_nat_div [OF q, of c] by (simp add: truncation_def)
    qed
  next
    case False
    then have "0 < c" by (cases c) auto
    then have "- (of_nat c / of_nat ?q :: rat) < 0" by simp
    then show ?thesis using ceiling_neg_nat_div [OF q, of c] by (simp add: truncation_def)
  qed
  have "int c div 10 ^ nat (- e) = int (c div ?q)" by (simp add: zdiv_int)
  with False pos neg show ?thesis by (simp add: finite_value_def)
qed

lemma eq_integral_iff:
  assumes "e < 0"
  shows "decimal_eq (Finite s c e) (Finite s (round_half_even c (10 ^ nat (- e))) 0)
     \<longleftrightarrow> 10 ^ nat (- e) dvd c"
proof -
  let ?q = "10 ^ nat (- e) :: nat"
  let ?r = "round_half_even c ?q"
  have q: "?r * ?q = c \<longleftrightarrow> ?q dvd c" by (rule round_exact) simp
  have "int c = int ?r * int ?q \<longleftrightarrow> c = ?r * ?q"
    by (simp only: of_nat_mult [symmetric] of_nat_eq_iff)
  then have i: "int c = int ?r * 10 ^ nat (- e) \<longleftrightarrow> ?q dvd c" using q by (simp add: eq_commute)
  from assms have m: "min e 0 = e" "nat (e - e) = 0" "nat (0 - e) = nat (- e)" by simp_all
  show ?thesis
    unfolding decimal_eq.simps scaled_def m using i by (cases s) simp_all
qed

lemma fractional_part_zero: "fractional_part x = 0 \<longleftrightarrow> x = of_int (truncation x)"
  by (simp add: fractional_part_def)

lemma decimal_rule:
  "py_default nearest (PDecimal (Finite s c e)) =
     (if fractional_part (finite_value s c e) = 0 then Inr (PInt (truncation (finite_value s c e)))
      else Inr (PFloat (nearest s c e)))"
proof (cases "0 \<le> e")
  case True
  then have "fractional_part (finite_value s c e) = 0"
    using value_Ints_iff [of s c e] Ints_truncation [of "finite_value s c e"]
    by (simp add: fractional_part_zero)
  with True show ?thesis by (simp add: decimal_int_truncation del: decimal_int.simps)
next
  case False
  then have "decimal_eq (Finite s c e) (Finite s (round_half_even c (10 ^ nat (- e))) 0)
    \<longleftrightarrow> fractional_part (finite_value s c e) = 0"
    using eq_integral_iff [of e s c] value_Ints_iff [of s c e]
      Ints_truncation [of "finite_value s c e"]
    by (simp add: fractional_part_zero)
  with False show ?thesis by (simp add: decimal_int_truncation del: decimal_int.simps)
qed

subsection \<open>Traversals\<close>

lemma map_sum_Inr_iff: "map_sum f g r = Inr y \<longleftrightarrow> (\<exists>x. r = Inr x \<and> y = g x)"
  by (cases r) auto

lemma collect_map_Inr: "(\<And>x. x \<in> set xs \<Longrightarrow> f x = Inr (g x)) \<Longrightarrow> collect (map f xs) = Inr (map g xs)"
  by (induction xs) auto

lemma collect_Inr_D: "collect rs = Inr ys \<Longrightarrow> rs = map Inr ys"
  by (induction rs arbitrary: ys) (auto split: sum.splits)

lemma collect_Inr_iff: "collect rs = Inr ys \<longleftrightarrow> rs = map Inr ys"
  using collect_Inr_D collect_map_Inr [of ys Inr "\<lambda>x. x"] by auto

subsection \<open>What the encoder writes, the parser reads back\<close>

lemma dumps_written: "dumps nearest x = Inr j \<Longrightarrow> written j"
proof (induction nearest x arbitrary: j rule: dumps.induct)
  case (6 nearest xs)
  then obtain js where js: "map (dumps nearest) xs = map Inr js" and j: "j = JArray js"
    by (auto simp: collect_Inr_iff map_sum_Inr_iff)
  have "written y" if "y \<in> set js" for y
  proof -
    from that js have "Inr y \<in> set (map (dumps nearest) xs)" by simp
    then obtain x where "x \<in> set xs" "dumps nearest x = Inr y" by auto
    then show ?thesis using 6 by blast
  qed
  then show ?case by (simp add: j list_all_iff)
next
  case (7 nearest kvs)
  let ?f = "\<lambda>(k, v). case k of PStr s \<Rightarrow> map_sum id (Pair s) (dumps nearest v)
          | _ \<Rightarrow> Inl (JSONEncodeError ''Dict key must be str'' None)"
  from 7 obtain ms where ms: "map ?f kvs = map Inr ms" and j: "j = JObject ms"
    by (auto simp: collect_Inr_iff map_sum_Inr_iff)
  have "written y" if "(n, y) \<in> set ms" for n y
  proof -
    from that ms have "Inr (n, y) \<in> set (map ?f kvs)" by simp
    then obtain k v where kv: "(k, v) \<in> set kvs" "?f (k, v) = Inr (n, y)" by auto
    then have "k = PStr n" "dumps nearest v = Inr y"
      by (auto split: pyval.splits simp: map_sum_Inr_iff)
    then show ?thesis using 7 kv by blast
  qed
  then show ?case by (auto simp add: j list_all_iff)
qed (auto split: if_splits sum.splits)

lemma dumps_loads: "written j \<Longrightarrow> dumps nearest (loads j) = Inr j"
proof (induction j)
  case (JArray js)
  then have "collect (map (dumps nearest) (map loads js)) = Inr (map (\<lambda>j. j) js)"
    unfolding map_map by (intro collect_map_Inr) (auto simp: list_all_iff)
  then show ?case by simp
next
  case (JObject ms)
  have "collect (map (\<lambda>(k, v). case k of PStr s \<Rightarrow> map_sum id (Pair s) (dumps nearest v)
          | _ \<Rightarrow> Inl (JSONEncodeError ''Dict key must be str'' None))
          (map (\<lambda>(k, j). (PStr k, loads j)) ms)) = Inr (map (\<lambda>m. m) ms)"
    unfolding map_map using JObject by (intro collect_map_Inr) (auto simp: list_all_iff)
  then show ?case by simp
qed auto

subsection \<open>When the encoder succeeds, and what is read back\<close>

lemma isl_collect: "isl (collect rs) \<longleftrightarrow> (\<exists>r \<in> set rs. isl r)"
  by (induction rs) (auto split: sum.splits)

lemma dumps_decimal:
  "dumps nearest (PDecimal (Finite s c e)) =
     (if fractional_part (finite_value s c e) = 0
      then dumps nearest (PInt (truncation (finite_value s c e)))
      else dumps nearest (PFloat (nearest s c e)))"
  by (simp only: dumps.simps decimal_rule split: if_splits) simp

lemma fails_iff: "isl (dumps nearest x) \<longleftrightarrow> \<not> supported x"
proof (induction nearest x rule: dumps.induct)
  case (6 nearest xs)
  then show ?case by (auto simp: isl_collect isl_map_sum list_all_iff)
next
  case (7 nearest kvs)
  have "isl (case k of PStr s \<Rightarrow> map_sum id (Pair s) (dumps nearest v)
          | _ \<Rightarrow> Inl (JSONEncodeError ''Dict key must be str'' None))
     \<longleftrightarrow> \<not> ((case k of PStr s \<Rightarrow> True | _ \<Rightarrow> False) \<and> supported v)"
    if "(k, v) \<in> set kvs" for k v
    using 7 [OF that refl] by (cases k) (auto simp: isl_map_sum)
  then show ?case by (fastforce simp: isl_collect isl_map_sum list_all_iff)
next
  fix nearest :: nearest_double and d :: decimal
  show "isl (dumps nearest (PDecimal d)) \<longleftrightarrow> \<not> supported (PDecimal d)"
  proof (cases d)
    case (Finite s c e)
    then show ?thesis
      by (simp only: dumps_decimal supported.simps supported_decimal.simps split: if_splits)
         (simp add: int64_range_def)
  qed (simp_all add: float_nan_def isfinite_def)
qed (auto simp: int64_range_def)





subsection \<open>Hexadecimal strings\<close>

lemma digit_char_hex: "n < 16 \<Longrightarrow> digit_char n \<in> set ''0123456789abcdef''"
  unfolding digit_char_def by (rule nth_mem) simp

lemma length_bytes_hex: "length (bytes_hex bs) = 2 * length bs"
  by (induction bs) (simp_all add: bytes_hex_def byte_hex_def)

lemma set_bytes_hex: "set (bytes_hex bs) \<subseteq> set ''0123456789abcdef''"
proof -
  have "set (byte_hex b) \<subseteq> set ''0123456789abcdef''" for b
  proof -
    have "unat b < 2 ^ LENGTH(8)" by (rule unsigned_less)
    then have "unat b div 16 < 16" by simp
    then show ?thesis
      using digit_char_hex [of "unat b div 16"] digit_char_hex [of "unat b mod 16"]
      by (simp add: byte_hex_def)
  qed
  then show ?thesis by (simp only: bytes_hex_def set_concat set_map) blast
qed

lemma escape_plain: "(\<And>c. c \<in> set s \<Longrightarrow> escape_char c = [c]) \<Longrightarrow> concat (map escape_char s) = s"
  by (induction s) auto

lemma escape_hex_digit: "c \<in> set ''0123456789abcdef'' \<Longrightarrow> escape_char c = [c]"
  by (auto simp: escape_char_def)

lemma quote_bytes_hex: "quote (bytes_hex bs) = CHR 0x22 # bytes_hex bs @ [CHR 0x22]"
  using set_bytes_hex [of bs] escape_plain [of "bytes_hex bs"] escape_hex_digit
  unfolding quote_def by blast

subsection \<open>Unsupported objects\<close>

lemma contains_object_unsupported: "contains_object x \<Longrightarrow> \<not> supported x"
  by (induction x rule: contains_object.induct) (fastforce simp: list_all_iff list_ex_iff)+

subsection \<open>Evaluation\<close>

text \<open>The equations that evaluate the codec on a concrete input.\<close>

lemmas eval_simps = to_jsonable_def to_json_def timedelta_str_def timedelta_new_def
  str_nat.simps str_int_def zero_pad_def digit_char_def plural_def bytes_hex_def byte_hex_def
  quote_def escape_char_def newline_indent_def int64_range_def scaled_def round_half_even_def
  finite_value_def truncation_def fractional_part_def date_iso_def clock_iso_def
  offset_iso_def datetime_iso_def float_inf_def float_nan_def isfinite_def

subsection \<open>Normalized values\<close>

lemma native_loads: "written j \<Longrightarrow> json_native (loads j)"
  by (induction j) (auto simp: list_all_iff)

subsection \<open>The text of a UUID\<close>






subsection \<open>Indentation\<close>

























subsection \<open>Inputs without sets\<close>




section \<open>The claims\<close>

text \<open>
  Claim C1 (amended). For every finite decimal \<open>d\<close>, the decimal rule of the handler
  returns an integer, the truncation of \<open>d\<close>, exactly when the fractional part of
  \<open>d\<close> is zero, that is when \<open>d\<close> equals its own truncation to an integer;
  otherwise it returns \<^verbatim>\<open>float(d)\<close>, the double nearest to \<open>d\<close>.
  \<^verbatim>\<open>to_jsonable\<close> returns that integer when it fits the encoder's 64 bits (the
  encoder raises when it does not), and that float when it is finite (\<^verbatim>\<open>None\<close>
  when it is not). A decimal NaN is normalized to \<^verbatim>\<open>None\<close>.
\<close>

theorem decimal_normalizes_to_int_or_float:
  "py_default nearest (PDecimal (Finite s c e)) =
     (if fractional_part (finite_value s c e) = 0
      then Inr (PInt (truncation (finite_value s c e)))
      else Inr (PFloat (nearest s c e)))
   \<and> to_jsonable nearest (PDecimal (Finite s c e)) =
     (if fractional_part (finite_value s c e) = 0
      then if int64_range (truncation (finite_value s c e))
           then Inr (PInt (truncation (finite_value s c e)))
           else Inl (JSONEncodeError ''Integer exceeds 64-bit range'' None)
      else Inr (if isfinite (nearest s c e) then PFloat (nearest s c e) else PNone))
   \<and> (fractional_part (finite_value s c e) = 0
        \<longleftrightarrow> finite_value s c e = of_int (truncation (finite_value s c e)))
   \<and> to_jsonable nearest (PDecimal (NaN s)) = Inr PNone"
proof -
  have "to_jsonable nearest (PDecimal (NaN s)) = Inr PNone"
    by (simp add: to_jsonable_def float_nan_def isfinite_def)
  then show ?thesis
    by (simp only: decimal_rule dumps_decimal to_jsonable_def fractional_part_zero split: if_splits)
       simp
qed

text \<open>
  The claim as stated, for every decimal, fails at two inputs a \<^verbatim>\<open>numeric\<close>
  column can hold. \<^verbatim>\<open>Decimal('NaN')\<close> is not equal to its own
  \<^verbatim>\<open>to_integral_value()\<close>, the handler returns the float NaN, and the encoder
  writes \<^verbatim>\<open>null\<close>: the normalized value is \<^verbatim>\<open>None\<close>, neither an integer
  nor a float. \<^verbatim>\<open>Decimal('1E+20')\<close> is whole, the handler returns the integer
  \<open>10 ^ 20\<close>, and the encoder refuses an integer beyond 64 bits.
\<close>

theorem decimal_normalization_counterexample:
  "to_jsonable (\<lambda>s c e. 0) (PDecimal (NaN False)) = Inr PNone
   \<and> py_default (\<lambda>s c e. 0) (PDecimal (Finite False 1 20)) = Inr (PInt 100000000000000000000)
   \<and> to_jsonable (\<lambda>s c e. 0) (PDecimal (Finite False 1 20)) =
       Inl (JSONEncodeError ''Integer exceeds 64-bit range'' None)"
  by (simp add: to_jsonable_def scaled_def int64_range_def float_nan_def isfinite_def)

text \<open>
  The examples of the specification and of the tests: \<^verbatim>\<open>Decimal("42")\<close> is
  normalized to the integer 42, \<^verbatim>\<open>Decimal("42.00")\<close> too, and
  \<^verbatim>\<open>Decimal("19.99")\<close> to the float nearest to it.
\<close>

lemma decimal_examples:
  "to_jsonable nearest (PDecimal (Finite False 42 0)) = Inr (PInt 42)"
  "to_jsonable nearest (PDecimal (Finite False 4200 (- 2))) = Inr (PInt 42)"
  "to_jsonable nearest (PDecimal (Finite False 1999 (- 2))) =
     Inr (if isfinite (nearest False 1999 (- 2)) then PFloat (nearest False 1999 (- 2)) else PNone)"
  by (simp_all add: to_jsonable_def scaled_def round_half_even_def int64_range_def)

text \<open>
  An infinite decimal is equal to its own \<^verbatim>\<open>to_integral_value()\<close>, so the handler
  takes \<^verbatim>\<open>int\<close> of it, which raises \<^verbatim>\<open>OverflowError\<close>; a signalling NaN
  raises in \<^verbatim>\<open>to_integral_value()\<close>. The encoder raises from either.
\<close>

lemma decimal_infinity_raises:
  "py_default nearest (PDecimal (Infinity s)) =
     Inl (OverflowError ''cannot convert Infinity to integer'')"
  "to_jsonable nearest (PDecimal (Infinity s)) =
     Inl (JSONEncodeError ''Type is not JSON serializable: decimal.Decimal''
       (Some (OverflowError ''cannot convert Infinity to integer'')))"
  "to_jsonable nearest (PDecimal (SNaN s)) =
     Inl (JSONEncodeError ''Type is not JSON serializable: decimal.Decimal''
       (Some InvalidOperation))"
  by (simp_all add: to_jsonable_def)

text \<open>
  Claim C2. On a database where the hypothetical-index extension is not installed, the
  explain operation called with a non-empty list of index specs returns the detail message
  of the extension check as its text (it does not raise), and the only call it makes on
  the database is the extension check: no plan is generated.
\<close>

theorem missing_extension_returns_detail:
  "specs \<noteq> [] \<Longrightarrow> \<not> fst (hypopg_status db) \<Longrightarrow>
   explain_query db sql specs = (Inr (snd (hypopg_status db)), [CheckExtension])"
  by (cases "hypopg_status db")
     (simp add: explain_query_def explain_with_hypothetical_indexes_def
        with_hypothetical_indexes_def)

text \<open>The database and the request of \<^verbatim>\<open>test_explain_query_missing_hypopg_integration\<close>.\<close>

theorem missing_extension_returns_detail_witness:
  "[(''users'', [''email''])] \<noteq> []
   \<and> \<not> fst (hypopg_status \<lparr>hypopg_status = (False, ''The hypopg extension is required''),
        plan_text = (\<lambda>ixs sql. Inr ''Index Scan using hypo_idx'')\<rparr>)
   \<and> explain_query \<lparr>hypopg_status = (False, ''The hypopg extension is required''),
        plan_text = (\<lambda>ixs sql. Inr ''Index Scan using hypo_idx'')\<rparr>
        ''SELECT * FROM users WHERE email = 1'' [(''users'', [''email''])]
      = (Inr ''The hypopg extension is required'', [CheckExtension])"
  using missing_extension_returns_detail [of "[(''users'', [''email''])]"
      "\<lparr>hypopg_status = (False, ''The hypopg extension is required''),
        plan_text = (\<lambda>ixs sql. Inr ''Index Scan using hypo_idx'')\<rparr>"
      "''SELECT * FROM users WHERE email = 1''"]
  by simp

text \<open>
  With the extension installed, the plan is generated between the creation and the removal
  of the indexes; without index specs, the extension is not checked.
\<close>

lemma installed_extension_explains:
  "explain_query \<lparr>hypopg_status = (True, []),
        plan_text = (\<lambda>ixs sql. Inr ''Index Scan using hypo_idx'')\<rparr>
        ''SELECT 1'' [(''users'', [''email''])]
      = (Inr ''Index Scan using hypo_idx'',
         [CheckExtension, CreateIndex (''users'', [''email'']), Explain ''SELECT 1'', RemoveIndexes])"
  "explain_query \<lparr>hypopg_status = (False, []),
        plan_text = (\<lambda>ixs sql. Inr ''Seq Scan on users'')\<rparr>
        ''SELECT 1'' []
      = (Inr ''Seq Scan on users'', [Explain ''SELECT 1''])"
  by (simp_all add: explain_query_def explain_with_hypothetical_indexes_def
        with_hypothetical_indexes_def explain_def)



text \<open>
  Claim C4. An object of a type that the encoder does not serialize natively and that the
  rule table does not cover makes \<^verbatim>\<open>to_json\<close> raise: the encoder's
  \<open>JSONEncodeError\<close>, raised from the handler's \<open>TypeError\<close>, and the message of
  each carries the name of the type. Wherever such an object stands in the input,
  \<^verbatim>\<open>to_json\<close> and \<^verbatim>\<open>to_jsonable\<close> raise and return nothing: no string
  is made of the object.
\<close>

theorem unsupported_type_raises:
  "to_json nearest repr (PObject q n) =
     Inl (JSONEncodeError (''Type is not JSON serializable: '' @ q)
       (Some (TypeError (''Object of type '' @ n @ '' is not JSON serializable''))))
   \<and> (contains_object x \<longrightarrow> isl (to_json nearest repr x) \<and> isl (to_jsonable nearest x))"
  using contains_object_unsupported [of x] fails_iff [of nearest x]
  by (simp add: to_json_def to_jsonable_def isl_map_sum)

text \<open>The input of the test \<^verbatim>\<open>test_unsupported_type_raises\<close>.\<close>

theorem unsupported_type_raises_witness:
  "contains_object (PDict [(PStr ''obj'', PObject ''object'' ''object'')])
   \<and> isl (to_json (\<lambda>s c e. 0) (\<lambda>f. []) (PDict [(PStr ''obj'', PObject ''object'' ''object'')]))
   \<and> to_json (\<lambda>s c e. 0) (\<lambda>f. []) (PDict [(PStr ''obj'', PObject ''object'' ''object'')]) =
       Inl (JSONEncodeError ''Type is not JSON serializable: object''
         (Some (TypeError ''Object of type object is not JSON serializable'')))"
  using unsupported_type_raises [of "\<lambda>s c e. 0" "\<lambda>f. []" "''object''" "''object''"
      "PDict [(PStr ''obj'', PObject ''object'' ''object'')]"]
  by (simp add: to_json_def)

text \<open>
  Claim C5 (amended). For every binary input of \<open>n\<close> bytes, a \<^verbatim>\<open>bytes\<close>
  object or a \<^verbatim>\<open>memoryview\<close>, \<^verbatim>\<open>to_jsonable\<close> returns a string of
  \<open>2 * n\<close> lowercase hexadecimal digits; \<^verbatim>\<open>to_json\<close> returns that string
  between double quotes, a text of \<open>2 * n + 2\<close> characters.
\<close>

theorem binary_normalizes_to_hex:
  "to_jsonable nearest (PBytes bs) = Inr (PStr (bytes_hex bs))
   \<and> to_jsonable nearest (PMemoryview bs) = Inr (PStr (bytes_hex bs))
   \<and> length (bytes_hex bs) = 2 * length bs
   \<and> set (bytes_hex bs) \<subseteq> set ''0123456789abcdef''
   \<and> to_json nearest repr (PBytes bs) = Inr (CHR 0x22 # bytes_hex bs @ [CHR 0x22])
   \<and> to_json nearest repr (PMemoryview bs) = Inr (CHR 0x22 # bytes_hex bs @ [CHR 0x22])"
  using set_bytes_hex [of bs]
  by (simp add: to_jsonable_def to_json_def length_bytes_hex quote_bytes_hex)

text \<open>
  The claim as stated gives the serialized text the length \<open>2 * n\<close>: the text of the
  two bytes \<^verbatim>\<open>b"\xde\xad"\<close> has six characters, the quotes included.
\<close>

theorem binary_text_counterexample:
  "to_json (\<lambda>s c e. 0) (\<lambda>f. []) (PBytes [0xDE, 0xAD]) = Inr (CHR 0x22 # ''dead'' @ [CHR 0x22])
   \<and> length (CHR 0x22 # ''dead'' @ [CHR 0x22]) \<noteq> 2 * length [0xDE, 0xAD :: byte]"
  by (simp add: eval_simps)

text \<open>
  Claim C6. For every \<^verbatim>\<open>timedelta\<close>, \<^verbatim>\<open>to_jsonable\<close> returns the string
  that \<^verbatim>\<open>str\<close> gives, never a number; a \<^verbatim>\<open>timedelta\<close> of 1 day,
  2 hours and 30 minutes is normalized to \<^verbatim>\<open>"1 day, 2:30:00"\<close>.
\<close>

theorem timedelta_normalizes_to_its_string:
  "to_jsonable nearest (PTimedelta td) = Inr (PStr (timedelta_str td))
   \<and> to_jsonable nearest (PTimedelta (timedelta_new 1 2 30 0)) = Inr (PStr ''1 day, 2:30:00'')"
  by (simp add: eval_simps)





text \<open>
  Why sets are left out: two sets of the same elements that enumerate them in different
  orders are the same value, and are normalized to different sequences.
\<close>

lemma set_order_shows:
  "same_value (PSet [PInt 1, PInt 2]) (PSet [PInt 2, PInt 1])
   \<and> to_jsonable nearest (PSet [PInt 1, PInt 2]) \<noteq> to_jsonable nearest (PSet [PInt 2, PInt 1])"
proof -
  have "same_value (PSet [PInt 1, PInt 2]) (PSet [PInt 2, PInt 1])"
    by simp
  then show ?thesis by (simp add: to_jsonable_def int64_range_def)
qed

text \<open>
  Claim C9. \<^verbatim>\<open>to_jsonable\<close> is idempotent: where \<^verbatim>\<open>to_jsonable(x)\<close>
  returns \<open>y\<close>, \<open>y\<close> holds JSON-native kinds only, and \<^verbatim>\<open>to_jsonable(y)\<close>
  returns \<open>y\<close>.
\<close>

theorem normalize_idempotent:
  "to_jsonable nearest x = Inr y \<Longrightarrow> json_native y \<and> to_jsonable nearest y = Inr y"
  by (cases "dumps nearest x")
     (auto simp: to_jsonable_def dumps_loads dumps_written native_loads)

text \<open>
  A whole decimal, a set of binary blobs and an infinite float: the normalized value is
  normalized to itself.
\<close>

theorem normalize_idempotent_witness:
  "to_jsonable (\<lambda>s c e. 0) (PList [PDecimal (Finite False 4200 (- 2)), PSet [PBytes [0xCA, 0xFE]],
       PFloat (float_inf False)])
     = Inr (PList [PInt 42, PList [PStr ''cafe''], PNone])
   \<and> json_native (PList [PInt 42, PList [PStr ''cafe''], PNone])
   \<and> to_jsonable (\<lambda>s c e. 0) (PList [PInt 42, PList [PStr ''cafe''], PNone])
     = Inr (PList [PInt 42, PList [PStr ''cafe''], PNone])"
proof -
  have x: "to_jsonable (\<lambda>s c e. 0) (PList [PDecimal (Finite False 4200 (- 2)),
       PSet [PBytes [0xCA, 0xFE]], PFloat (float_inf False)])
     = Inr (PList [PInt 42, PList [PStr ''cafe''], PNone])"
    by (simp add: to_jsonable_def digit_char_def bytes_hex_def byte_hex_def
        int64_range_def scaled_def round_half_even_def float_inf_def isfinite_def)
  from normalize_idempotent [OF x] x show ?thesis by simp
qed




end
